theory Spec2Isabelle
  imports Main
begin

section \<open>JavaScript values and strings\<close>

text \<open>
  The logger of \<^verbatim>\<open>src/console.ts\<close> receives metadata of type \<^verbatim>\<open>unknown\<close> and inspects it
  with \<^verbatim>\<open>typeof\<close>, \<^verbatim>\<open>Array.isArray\<close>, \<^verbatim>\<open>Object.keys\<close> and \<^verbatim>\<open>JSON.stringify\<close>, so metadata
  is a value of the data fragment of JavaScript. A JavaScript string is a sequence of
  UTF-16 code units and \<^verbatim>\<open>.length\<close> counts them; the model writes one \<open>char\<close> per code
  unit. \<open>JBigInt n\<close> is the BigInt \<open>n\<close>. The properties of an object are listed in the
  order \<^verbatim>\<open>Object.keys\<close> enumerates them.

  A Number is a double. The logger and the functions it calls observe two things of it:
  whether it is falsy (0, -0 and NaN are) and the text \<^verbatim>\<open>JSON.stringify\<close> prints for it
  (that of \<^verbatim>\<open>Number.prototype.toString\<close> for a finite number, \<^verbatim>\<open>null\<close> for NaN and the
  infinities). \<open>Num f t\<close> is a Number by these two: 5 is \<open>Num False ''5''\<close>, 0 is
  \<open>Num True ''0''\<close>, 10^21 is \<open>Num False ''1e+21''\<close>, NaN is \<open>Num True ''null''\<close>.
\<close>

datatype jsnumber = Num bool string

datatype jsvalue =
    JUndefined
  | JNull
  | JBool bool
  | JNumber jsnumber
  | JBigInt int
  | JString string
  | JArray "jsvalue list"
  | JObject "(string \<times> jsvalue) list"

type_synonym jsobject = "(string \<times> jsvalue) list"

datatype exn = TypeError

text \<open>ToBoolean, as applied by \<^verbatim>\<open>!x\<close>, \<^verbatim>\<open>if (x)\<close> and \<^verbatim>\<open>x || y\<close>.\<close>

fun truthy :: "jsvalue \<Rightarrow> bool" where
  "truthy JUndefined = False"
| "truthy JNull = False"
| "truthy (JBool b) = b"
| "truthy (JNumber (Num f t)) = (\<not> f)"
| "truthy (JBigInt n) = (n \<noteq> 0)"
| "truthy (JString s) = (s \<noteq> [])"
| "truthy (JArray xs) = True"
| "truthy (JObject ps) = True"

text \<open>\<^verbatim>\<open>x == null\<close> holds of \<^verbatim>\<open>null\<close> and \<^verbatim>\<open>undefined\<close> only.\<close>

fun looseEqNull :: "jsvalue \<Rightarrow> bool" where
  "looseEqNull JUndefined = True"
| "looseEqNull JNull = True"
| "looseEqNull v = False"


definition Object_keys :: "jsobject \<Rightarrow> string list" where
  "Object_keys ps = map fst ps"

text \<open>Reading a property: \<^verbatim>\<open>undefined\<close> when the object has none of that name.\<close>

definition getProp :: "jsobject \<Rightarrow> string \<Rightarrow> jsvalue" where
  "getProp ps k = (case map_of ps k of None \<Rightarrow> JUndefined | Some v \<Rightarrow> v)"

text \<open>Writing a property keeps the place of an existing one and appends a new one.\<close>

fun setProp :: "jsobject \<Rightarrow> string \<Rightarrow> jsvalue \<Rightarrow> jsobject" where
  "setProp [] k v = [(k, v)]"
| "setProp ((k', v') # ps) k v = (if k' = k then (k, v) # ps else (k', v') # setProp ps k v)"

text \<open>\<^verbatim>\<open>Object.assign({}, target, source)\<close>: the properties of \<open>source\<close> written over a copy of \<open>target\<close>.\<close>

fun assign :: "jsobject \<Rightarrow> jsobject \<Rightarrow> jsobject" where
  "assign target [] = target"
| "assign target ((k, v) # src) = assign (setProp target k v) src"

text \<open>
  \<^verbatim>\<open>String.prototype.padStart(maxLength, fillString)\<close>: the string itself when it is already
  \<open>maxLength\<close> long or the filler is empty, else the filler repeated and cut to the
  missing length, in front of the string.
\<close>

definition padStart :: "string \<Rightarrow> nat \<Rightarrow> string \<Rightarrow> string" where
  "padStart s maxLength fillString =
     (if maxLength \<le> length s \<or> fillString = [] then s
      else take (maxLength - length s) (concat (replicate (maxLength - length s) fillString)) @ s)"

text \<open>\<^verbatim>\<open>String.prototype.substr(start, length)\<close> for a start that is not negative.\<close>

definition substr :: "string \<Rightarrow> nat \<Rightarrow> nat \<Rightarrow> string" where
  "substr s start len = take len (drop start s)"

subsection \<open>JSON.stringify\<close>

text \<open>
  \<^verbatim>\<open>JSON.stringify(value)\<close> with no replacer and no indentation, on values that carry no
  \<^verbatim>\<open>toJSON\<close> method: SerializeJSONProperty of ECMAScript. The result is a string,
  \<^verbatim>\<open>undefined\<close> (\<open>None\<close>) for the value \<^verbatim>\<open>undefined\<close>, or the TypeError that a BigInt
  raises. An \<^verbatim>\<open>undefined\<close> element of an array prints as \<^verbatim>\<open>null\<close>; an \<^verbatim>\<open>undefined\<close>
  property of an object is left out.
\<close>

definition hexDigit :: "nat \<Rightarrow> char" where
  "hexDigit d = (if d < 10 then char_of (48 + d) else char_of (87 + d))"

definition quoteChar :: "char \<Rightarrow> string" where
  "quoteChar c =
     (if c = CHR 0x08 then [CHR 0x5C, CHR ''b'']
      else if c = CHR 0x09 then [CHR 0x5C, CHR ''t'']
      else if c = CHR 0x0A then [CHR 0x5C, CHR ''n'']
      else if c = CHR 0x0C then [CHR 0x5C, CHR ''f'']
      else if c = CHR 0x0D then [CHR 0x5C, CHR ''r'']
      else if c = CHR 0x22 then [CHR 0x5C, CHR 0x22]
      else if c = CHR 0x5C then [CHR 0x5C, CHR 0x5C]
      else if (of_char c :: nat) < 32
        then [CHR 0x5C, CHR ''u'', CHR ''0'', CHR ''0'',
              hexDigit (of_char c div 16), hexDigit (of_char c mod 16)]
      else [c])"

definition QuoteJSONString :: "string \<Rightarrow> string" where
  "QuoteJSONString s = CHR 0x22 # concat (map quoteChar s) @ [CHR 0x22]"

fun join :: "string \<Rightarrow> string list \<Rightarrow> string" where
  "join sep [] = []"
| "join sep [p] = p"
| "join sep (p # q # ps) = p @ sep @ join sep (q # ps)"

fun SerializeJSONProperty :: "jsvalue \<Rightarrow> exn + string option"
  and SerializeJSONArray :: "jsvalue list \<Rightarrow> exn + string list"
  and SerializeJSONObject :: "(string \<times> jsvalue) list \<Rightarrow> exn + string list"
where
  "SerializeJSONProperty JUndefined = Inr None"
| "SerializeJSONProperty JNull = Inr (Some ''null'')"
| "SerializeJSONProperty (JBool b) = Inr (Some (if b then ''true'' else ''false''))"
| "SerializeJSONProperty (JNumber (Num f t)) = Inr (Some t)"
| "SerializeJSONProperty (JBigInt n) = Inl TypeError"
| "SerializeJSONProperty (JString s) = Inr (Some (QuoteJSONString s))"
| "SerializeJSONProperty (JArray xs) =
     (case SerializeJSONArray xs of
        Inl e \<Rightarrow> Inl e
      | Inr parts \<Rightarrow> Inr (Some (''['' @ join '','' parts @ '']'')))"
| "SerializeJSONProperty (JObject ps) =
     (case SerializeJSONObject ps of
        Inl e \<Rightarrow> Inl e
      | Inr parts \<Rightarrow> Inr (Some (''{'' @ join '','' parts @ ''}'')))"
| "SerializeJSONArray [] = Inr []"
| "SerializeJSONArray (x # xs) =
     (case SerializeJSONProperty x of
        Inl e \<Rightarrow> Inl e
      | Inr r \<Rightarrow>
          (case SerializeJSONArray xs of
             Inl e \<Rightarrow> Inl e
           | Inr rs \<Rightarrow> Inr ((case r of None \<Rightarrow> ''null'' | Some s \<Rightarrow> s) # rs)))"
| "SerializeJSONObject [] = Inr []"
| "SerializeJSONObject ((k, v) # ps) =
     (case SerializeJSONProperty v of
        Inl e \<Rightarrow> Inl e
      | Inr r \<Rightarrow>
          (case SerializeJSONObject ps of
             Inl e \<Rightarrow> Inl e
           | Inr rs \<Rightarrow>
               Inr ((case r of None \<Rightarrow> [] | Some s \<Rightarrow> [QuoteJSONString k @ '':'' @ s]) @ rs)))"

definition JSON_stringify :: "jsvalue \<Rightarrow> exn + string option" where
  "JSON_stringify v = SerializeJSONProperty v"

text \<open>\<^verbatim>\<open>" " + JSON.stringify(m)\<close>: the concatenation prints \<^verbatim>\<open>undefined\<close> by its name.\<close>

definition concatStringified :: "string \<Rightarrow> exn + string option \<Rightarrow> exn + string" where
  "concatStringified pre r =
     (case r of
        Inl e \<Rightarrow> Inl e
      | Inr None \<Rightarrow> Inr (pre @ ''undefined'')
      | Inr (Some j) \<Rightarrow> Inr (pre @ j))"

section \<open>The records of the logger\<close>

text \<open>An \<^verbatim>\<open>Error\<close>, of which the logger reads \<^verbatim>\<open>.stack\<close> only.\<close>

record Error =
  stack :: "string option"

text \<open>
  \<^verbatim>\<open>LoggerOption\<close>: both fields are optional. An absent \<^verbatim>\<open>error\<close> is \<open>None\<close>, an absent
  \<^verbatim>\<open>metadata\<close> is \<open>JUndefined\<close>.
\<close>

record LoggerOption =
  lo_error :: "Error option"
  lo_metadata :: jsvalue

text \<open>
  The \<^verbatim>\<open>info\<close> object that winston hands to the formatter, with the fields the formatter
  of \<^verbatim>\<open>console.ts\<close> reads.
\<close>

record TransformableInfo =
  level :: string
  message :: string
  timestamp :: string
  scope :: "string option"
  metadata :: jsvalue
  stackTrace :: "string option"

text \<open>
  What the calls take from their environment: the text of \<^verbatim>\<open>format.timestamp\<close>, winston's
  colorizer (level and text to coloured text) and the stack that \<^verbatim>\<open>new Error()\<close> captures
  inside \<^verbatim>\<open>traceError\<close>.
\<close>

record Runtime =
  clock :: string
  colorize :: "string \<Rightarrow> string \<Rightarrow> string"
  capturedStack :: string

text \<open>
  The format of a winston logger: \<^verbatim>\<open>handleConsoleFormat\<close> of the instance named \<open>n\<close>
  (the arrow function closes over \<^verbatim>\<open>this\<close>), or winston's timestamped JSON.
\<close>

datatype Format = ConsoleFormat string | JsonFormat

text \<open>
  A \<^verbatim>\<open>winston.Logger\<close>: its level, its format and the default metadata that
  \<^verbatim>\<open>child\<close> adds to every record.
\<close>

record WinstonLogger =
  w_level :: string
  w_format :: Format
  w_defaultMeta :: jsobject

record ConsoleLogger =
  name :: string
  debugMode :: bool
  logger :: WinstonLogger

text \<open>The options of the constructor; \<open>opt_child\<close> is \<^verbatim>\<open>_child\<close>.\<close>

record ConstructorOptions =
  opt_name :: string
  opt_logLevel :: "string option"
  opt_format :: "string option"
  opt_debugMode :: "bool option"
  opt_child :: "WinstonLogger option"

text \<open>
  What the logger stream passes on to its transports: the line of the console format, or
  the record that winston's JSON format serializes.
\<close>

datatype Output = Line string | JsonRecord TransformableInfo

section \<open>The formatter\<close>

definition SCOPE_MAX_LEN :: nat where
  "SCOPE_MAX_LEN = 18"

definition stringifyMetadata :: "TransformableInfo \<Rightarrow> exn + string" where
  "stringifyMetadata info =
     (let m = metadata info in
      if looseEqNull m then Inr []
      else (case m of
              JString s \<Rightarrow> Inr ('' '' @ s)
            | JArray xs \<Rightarrow>
                (if length xs \<le> 0 then Inr []
                 else concatStringified '' '' (JSON_stringify m))
            | JObject ps \<Rightarrow>
                (if length (Object_keys ps) > 0 then concatStringified '' '' (JSON_stringify m)
                 else Inr [])
            | _ \<Rightarrow> Inr []))"

text \<open>Lines 124 to 128 of the callback of \<^verbatim>\<open>format.printf\<close>.\<close>

definition metadataSuffix :: "TransformableInfo \<Rightarrow> exn + string" where
  "metadataSuffix info =
     (case stringifyMetadata info of
        Inl e \<Rightarrow> Inl e
      | Inr md \<Rightarrow> Inr (if md \<noteq> [] then CHR 0x0A # ''  > [metadata]'' @ md else md))"

text \<open>Lines 130 to 134.\<close>

definition stackTraceSuffix :: "TransformableInfo \<Rightarrow> string" where
  "stackTraceSuffix info =
     (case stackTrace info of
        None \<Rightarrow> []
      | Some st \<Rightarrow> if st \<noteq> [] then CHR 0x0A # ''  > [stackTrace] '' @ st else [])"

text \<open>Line 137.\<close>

definition levelColumn :: "TransformableInfo \<Rightarrow> string" where
  "levelColumn info = padStart (level info) 15 '' ''"

text \<open>Line 140: \<^verbatim>\<open>info.scope || this.name\<close>.\<close>

definition resolveScope :: "string \<Rightarrow> TransformableInfo \<Rightarrow> string" where
  "resolveScope this_name info =
     (case scope info of
        None \<Rightarrow> this_name
      | Some s \<Rightarrow> if s \<noteq> [] then s else this_name)"

text \<open>Lines 141 to 145.\<close>

definition trimScope :: "string \<Rightarrow> string" where
  "trimScope s =
     (if length s > SCOPE_MAX_LEN then substr s 0 SCOPE_MAX_LEN
      else padStart s SCOPE_MAX_LEN '' '')"

definition scopeColumn :: "string \<Rightarrow> TransformableInfo \<Rightarrow> string" where
  "scopeColumn this_name info = trimScope (resolveScope this_name info)"

definition printf_callback :: "string \<Rightarrow> TransformableInfo \<Rightarrow> exn + string" where
  "printf_callback this_name info =
     (case metadataSuffix info of
        Inl e \<Rightarrow> Inl e
      | Inr md \<Rightarrow>
          Inr (''['' @ timestamp info @ ''] '' @ levelColumn info @ '': ''
               @ scopeColumn this_name info @ '' | '' @ message info @ md
               @ stackTraceSuffix info))"

text \<open>
  \<^verbatim>\<open>format.combine(format.timestamp({}), format.colorize({all: true}), format.printf(...))\<close>:
  the record is stamped, its level and its message are coloured by the level, and the
  callback renders it.
\<close>

definition handleConsoleFormat :: "string \<Rightarrow> Runtime \<Rightarrow> TransformableInfo \<Rightarrow> exn + string" where
  "handleConsoleFormat this_name rt info =
     printf_callback this_name
       (info\<lparr>timestamp := clock rt,
             level := colorize rt (level info) (level info),
             message := colorize rt (level info) (message info)\<rparr>)"

section \<open>The winston logger, as far as the calls of console.ts reach\<close>

definition createLogger :: "string \<Rightarrow> Format \<Rightarrow> WinstonLogger" where
  "createLogger lvl fmt = \<lparr>w_level = lvl, w_format = fmt, w_defaultMeta = []\<rparr>"

text \<open>
  \<^verbatim>\<open>logger.child(meta)\<close>: the same level, format and transports; every record written
  through the child starts from \<open>meta\<close>.
\<close>

definition child :: "WinstonLogger \<Rightarrow> jsobject \<Rightarrow> WinstonLogger" where
  "child w meta = w\<lparr>w_defaultMeta := assign (w_defaultMeta w) meta\<rparr>"

definition asString :: "jsvalue \<Rightarrow> string option" where
  "asString v = (case v of JString s \<Rightarrow> Some s | _ \<Rightarrow> None)"

text \<open>
  winston's \<^verbatim>\<open>formatRegExp\<close>, \<^verbatim>\<open>/%[scdjifoO%]/g\<close>: whether the message holds a printf token.
\<close>

fun hasFormatToken :: "string \<Rightarrow> bool" where
  "hasFormatToken (c # d # cs) =
     ((c = CHR ''%'' \<and> d \<in> set ''scdjifoO%'') \<or> hasFormatToken (d # cs))"
| "hasFormatToken cs = False"

text \<open>
  The record of one call, as \<^verbatim>\<open>log(level, msg, meta)\<close> makes it: the default metadata with
  the level and the message, overwritten by the metadata of the call when that is an
  object and the message holds no printf token (with a token the metadata stays in the
  splat, which no format of \<^verbatim>\<open>console.ts\<close> reads). The metadata of the calls of
  \<^verbatim>\<open>console.ts\<close> never has a property \<^verbatim>\<open>message\<close>, \<^verbatim>\<open>stack\<close>, \<^verbatim>\<open>level\<close> or \<^verbatim>\<open>scope\<close>.
\<close>

definition winston_info :: "WinstonLogger \<Rightarrow> string \<Rightarrow> string \<Rightarrow> jsobject option \<Rightarrow> TransformableInfo" where
  "winston_info w lvl msg meta =
     (let fields = (case meta of
                      None \<Rightarrow> w_defaultMeta w
                    | Some m \<Rightarrow>
                        if \<not> hasFormatToken msg then assign (w_defaultMeta w) m
                        else w_defaultMeta w)
      in \<lparr>level = lvl, message = msg, timestamp = [],
          scope = asString (getProp fields ''scope''),
          metadata = getProp fields ''metadata'',
          stackTrace = asString (getProp fields ''stackTrace'')\<rparr>)"

text \<open>
  \<^verbatim>\<open>logger.debug\<close>, \<^verbatim>\<open>logger.info\<close>, \<^verbatim>\<open>logger.warn\<close> and \<^verbatim>\<open>logger.error\<close>: the record goes
  through the format of the logger, in the call itself, and an exception of the format
  reaches the caller. The JSON format is winston's own and is taken to return. Filtering
  by level and writing are the transports' part.
\<close>

definition winston_log :: "WinstonLogger \<Rightarrow> Runtime \<Rightarrow> string \<Rightarrow> string \<Rightarrow> jsobject option \<Rightarrow> exn + Output" where
  "winston_log w rt lvl msg meta =
     (case w_format w of
        ConsoleFormat n \<Rightarrow>
          (case handleConsoleFormat n rt (winston_info w lvl msg meta) of
             Inl e \<Rightarrow> Inl e
           | Inr l \<Rightarrow> Inr (Line l))
      | JsonFormat \<Rightarrow> Inr (JsonRecord ((winston_info w lvl msg meta)\<lparr>timestamp := clock rt\<rparr>)))"

section \<open>ConsoleLogger\<close>

definition constructor :: "ConstructorOptions \<Rightarrow> ConsoleLogger" where
  "constructor options =
     (let logFmt = (if opt_format options = Some ''console''
                    then ConsoleFormat (opt_name options) else JsonFormat);
          logLevel = (case opt_logLevel options of
                        None \<Rightarrow> ''info''
                      | Some l \<Rightarrow>
                          if l = ''debug'' \<or> l = ''error'' \<or> l = ''info'' \<or> l = ''warn''
                          then l else ''info'')
      in \<lparr>name = opt_name options,
          debugMode = (opt_debugMode options = Some True),
          logger = (case opt_child options of
                      Some c \<Rightarrow> c
                    | None \<Rightarrow> createLogger logLevel logFmt)\<rparr>)"

definition getMetadata :: "LoggerOption option \<Rightarrow> jsobject option" where
  "getMetadata options =
     (case options of
        None \<Rightarrow> None
      | Some opt \<Rightarrow>
          if \<not> truthy (lo_metadata opt) then None
          else Some [(''metadata'', lo_metadata opt)])"

definition stackOf :: "Error \<Rightarrow> jsvalue" where
  "stackOf e = (case stack e of None \<Rightarrow> JUndefined | Some s \<Rightarrow> JString s)"

text \<open>
  \<^verbatim>\<open>traceError\<close> assigns to the fields of the object it was given. The second component
  of the result is that object after the call: \<open>None\<close> when the caller passed none (the
  object made by \<^verbatim>\<open>options = {}\<close> is the function's own). \<open>err\<close> is \<^verbatim>\<open>options.error\<close>
  after line 110: the error that was there, or the new one that is assigned.
\<close>

definition traceError :: "ConsoleLogger \<Rightarrow> Runtime \<Rightarrow> LoggerOption option \<Rightarrow> jsobject option \<times> LoggerOption option" where
  "traceError this rt options =
     (if \<not> debugMode this then (None, options)
      else
        let opt0 = (case options of
                      None \<Rightarrow> \<lparr>lo_error = None, lo_metadata = JUndefined\<rparr>
                    | Some opt \<Rightarrow> opt);
            opt1 = (if \<not> truthy (lo_metadata opt0) then opt0\<lparr>lo_metadata := JObject []\<rparr>
                    else opt0);
            err = (case lo_error opt1 of
                     None \<Rightarrow> \<lparr>stack = Some (capturedStack rt)\<rparr>
                   | Some e \<Rightarrow> e);
            opt2 = opt1\<lparr>lo_error := Some err\<rparr>
        in (Some [(''stackTrace'', stackOf err), (''metadata'', lo_metadata opt2)],
            map_option (\<lambda>_. opt2) options))"

definition debug :: "ConsoleLogger \<Rightarrow> Runtime \<Rightarrow> string \<Rightarrow> LoggerOption option \<Rightarrow> exn + Output" where
  "debug this rt msg options = winston_log (logger this) rt ''debug'' msg (getMetadata options)"

definition error :: "ConsoleLogger \<Rightarrow> Runtime \<Rightarrow> string \<Rightarrow> LoggerOption option \<Rightarrow> (exn + Output) \<times> LoggerOption option" where
  "error this rt msg options =
     (winston_log (logger this) rt ''error'' msg (fst (traceError this rt options)),
      snd (traceError this rt options))"

definition info :: "ConsoleLogger \<Rightarrow> Runtime \<Rightarrow> string \<Rightarrow> LoggerOption option \<Rightarrow> exn + Output" where
  "info this rt msg options = winston_log (logger this) rt ''info'' msg (getMetadata options)"

definition warn :: "ConsoleLogger \<Rightarrow> Runtime \<Rightarrow> string \<Rightarrow> LoggerOption option \<Rightarrow> exn + Output" where
  "warn this rt msg options = winston_log (logger this) rt ''warn'' msg (getMetadata options)"

definition createChild :: "ConsoleLogger \<Rightarrow> string \<Rightarrow> ConsoleLogger" where
  "createChild this scp =
     constructor \<lparr>opt_name = name this, opt_logLevel = None, opt_format = None,
                  opt_debugMode = None,
                  opt_child = Some (child (logger this) [(''scope'', JString scp)])\<rparr>"

section \<open>Colour codes\<close>

text \<open>
  The spec measures the level column by its visible width, "counting color-control
  characters as zero-width". A colour code is the escape character, a bracket, its
  parameters and the letter m; \<open>visibleWidth\<close> counts the characters outside such codes.
\<close>

fun visibleFrom :: "bool \<Rightarrow> string \<Rightarrow> nat" where
  "visibleFrom inCode [] = 0"
| "visibleFrom False (c # cs) =
     (if c = CHR 0x1B then visibleFrom True cs else Suc (visibleFrom False cs))"
| "visibleFrom True (c # cs) =
     (if c = CHR ''m'' then visibleFrom False cs else visibleFrom True cs)"

definition visibleWidth :: "string \<Rightarrow> nat" where
  "visibleWidth s = visibleFrom False s"

text \<open>
  Whether the reading is inside a code after a string, and the strings that are made of
  whole colour codes only.
\<close>

fun codeState :: "bool \<Rightarrow> string \<Rightarrow> bool" where
  "codeState inCode [] = inCode"
| "codeState False (c # cs) = codeState (c = CHR 0x1B) cs"
| "codeState True (c # cs) = codeState (c \<noteq> CHR ''m'') cs"

definition colourCodes :: "string \<Rightarrow> bool" where
  "colourCodes s = (visibleFrom False s = 0 \<and> \<not> codeState False s)"

text \<open>
  winston's colours of the four levels and its colorizer on a terminal with colours (the
  \<^verbatim>\<open>colors\<close> package): the empty text stays empty; any other text is put between the code
  of the colour and the code that resets the foreground, every reset code inside it
  replaced by the code of the colour; and when the text holds a line feed, every run of
  line breaks of the result is put between the reset code and the code of the colour.
\<close>

definition levelColour :: "string \<Rightarrow> string" where
  "levelColour lvl =
     (if lvl = ''error'' then ''31''
      else if lvl = ''warn'' then ''33''
      else if lvl = ''info'' then ''32''
      else ''34'')"

definition resetCode :: string where
  "resetCode = CHR 0x1B # ''[39m''"

text \<open>\<^verbatim>\<open>str.replace(code.closeRe, code.open)\<close>; \<open>k\<close> counts the characters of a match still to pass.\<close>

fun reopen :: "string \<Rightarrow> nat \<Rightarrow> string \<Rightarrow> string" where
  "reopen opn k [] = []"
| "reopen opn (Suc k) (c # cs) = reopen opn k cs"
| "reopen opn 0 (c # cs) =
     (if take 5 (c # cs) = resetCode then opn @ reopen opn 4 cs
      else c # reopen opn 0 cs)"

text \<open>\<^verbatim>\<open>str.replace(/[\r\n]+/g, match => code.close + match + code.open)\<close>.\<close>

fun colourLines :: "string \<Rightarrow> bool \<Rightarrow> string \<Rightarrow> string" where
  "colourLines opn inRun [] = (if inRun then opn else [])"
| "colourLines opn inRun (c # cs) =
     (if c = CHR 0x0A \<or> c = CHR 0x0D
      then (if inRun then [c] else resetCode @ [c]) @ colourLines opn True cs
      else (if inRun then opn else []) @ c # colourLines opn False cs)"

definition ansiColorize :: "string \<Rightarrow> string \<Rightarrow> string" where
  "ansiColorize lvl txt =
     (if txt = [] then []
      else
        let opn = CHR 0x1B # ''['' @ levelColour lvl @ ''m'';
            wrapped = opn @ reopen opn 0 txt @ resetCode
        in if CHR 0x0A \<in> set txt then colourLines opn False wrapped else wrapped)"

definition ttyRuntime :: Runtime where
  "ttyRuntime =
     \<lparr>clock = ''2021-03-04T05:06:07.089Z'', colorize = ansiColorize,
      capturedStack = ''Error'' @ CHR 0x0A # ''    at ConsoleLogger.traceError''\<rparr>"

section \<open>The loggers a program can build\<close>

text \<open>
  \<^verbatim>\<open>_child\<close> is the constructor's own channel for \<^verbatim>\<open>createChild\<close>: a program builds a
  logger with the public options and derives children from it.
\<close>

inductive built :: "ConsoleLogger \<Rightarrow> bool" where
  built_root: "opt_child options = None \<Longrightarrow> built (constructor options)"
| built_child: "built this \<Longrightarrow> built (createChild this scp)"

section \<open>Strings and objects\<close>

lemma padStart_space:
  "padStart s n '' '' = replicate (n - length s) CHR '' '' @ s"
  by (simp add: padStart_def)

lemma trimScope_eq:
  "trimScope s = (if 18 < length s then take 18 s else replicate (18 - length s) CHR '' '' @ s)"
  by (simp add: trimScope_def SCOPE_MAX_LEN_def substr_def padStart_space)

lemma visibleFrom_append:
  "visibleFrom b (xs @ ys) = visibleFrom b xs + visibleFrom (codeState b xs) ys"
  by (induction b xs rule: visibleFrom.induct) auto

lemma visibleFrom_spaces:
  "visibleFrom False (replicate n CHR '' '' @ s) = n + visibleFrom False s"
  by (induction n) auto

lemma visible_label:
  assumes "colourCodes pre" "colourCodes post"
  shows "visibleWidth (pre @ ''info'' @ post) = 4"
  using assms by (simp add: visibleWidth_def colourCodes_def visibleFrom_append)

lemma ansi_info:
  "ansiColorize ''info'' ''info'' = CHR 0x1B # ''[32minfo'' @ CHR 0x1B # ''[39m''"
  by (simp add: ansiColorize_def Let_def resetCode_def levelColour_def)

lemma ansi_tick:
  "ansiColorize ''info'' ''tick'' = CHR 0x1B # ''[32mtick'' @ CHR 0x1B # ''[39m''"
  by (simp add: ansiColorize_def Let_def resetCode_def levelColour_def)

lemma keys_setProp: "fst ` set (setProp ps k v) = insert k (fst ` set ps)"
  by (induction ps k v rule: setProp.induct) auto

lemma keys_assign: "fst ` set (assign t s) = fst ` set t \<union> fst ` set s"
  by (induction t s rule: assign.induct) (auto simp add: keys_setProp)


lemma getProp_setProp: "getProp (setProp ps k v) k' = (if k' = k then v else getProp ps k')"
  by (induction ps k v rule: setProp.induct) (auto simp add: getProp_def)

lemma stringify_a1:
  "JSON_stringify (JObject [(''a'', JNumber (Num False ''1''))])
     = Inr (Some (''{'' @ CHR 0x22 # ''a'' @ CHR 0x22 # '':1}''))"
  by code_simp

section \<open>The level column\<close>

text \<open>
  C1, as the code has it: the colorized level is padded on the left with spaces to 15
  characters, the characters of the colour codes counted like any other, and is left as
  it is when it is longer. For the label \<open>info\<close> between colour codes of \<open>k\<close> characters
  in all, the column is 15 characters long and 15 - k of them are visible (4 when k
  exceeds 11); the label is at the right end.
\<close>

theorem level_column_width:
  assumes "level (r::TransformableInfo) = pre @ ''info'' @ post"
    and "colourCodes pre" and "colourCodes post"
  shows "levelColumn r
           = replicate (11 - (length pre + length post)) CHR '' '' @ pre @ ''info'' @ post
       \<and> length (levelColumn r) = max 15 (4 + (length pre + length post))
       \<and> visibleWidth (levelColumn r) = max 4 (15 - (length pre + length post))"
proof -
  have col: "levelColumn r
               = replicate (11 - (length pre + length post)) CHR '' '' @ pre @ ''info'' @ post"
    using assms(1) by (simp add: levelColumn_def padStart_space)
  have vis: "visibleWidth (levelColumn r) = (11 - (length pre + length post)) + 4"
    using visible_label [OF assms(2,3)]
    unfolding col visibleWidth_def visibleFrom_spaces by simp
  have len: "length (levelColumn r) = max 15 (4 + (length pre + length post))"
    unfolding col by simp
  have vis': "visibleWidth (levelColumn r) = max 4 (15 - (length pre + length post))"
    unfolding vis by arith
  show ?thesis using col len vis' by blast
qed

theorem level_column_width_witness:
  "colourCodes (CHR 0x1B # ''[32m'') \<and> colourCodes (CHR 0x1B # ''[39m'')
   \<and> length (levelColumn \<lparr>level = ansiColorize ''info'' ''info'', message = ''tick'',
        timestamp = [], scope = None, metadata = JUndefined, stackTrace = None\<rparr>) = 15
   \<and> visibleWidth (levelColumn \<lparr>level = ansiColorize ''info'' ''info'', message = ''tick'',
        timestamp = [], scope = None, metadata = JUndefined, stackTrace = None\<rparr>) = 5"
  using level_column_width [of "\<lparr>level = ansiColorize ''info'' ''info'', message = ''tick'',
      timestamp = [], scope = None, metadata = JUndefined, stackTrace = None\<rparr>"
      "CHR 0x1B # ''[32m''" "CHR 0x1B # ''[39m''"]
  by (simp add: ansi_info ansi_tick colourCodes_def visibleWidth_def)

text \<open>
  The label \<open>info\<close> in winston's green: one space is added, and the visible width of the
  column is 5, not 15.
\<close>

theorem level_column_counterexample:
  "visibleWidth (levelColumn \<lparr>level = CHR 0x1B # ''[32m'' @ ''info'' @ CHR 0x1B # ''[39m'',
      message = ''tick'', timestamp = [], scope = None, metadata = JUndefined,
      stackTrace = None\<rparr>) \<noteq> 15"
  by (simp add: levelColumn_def padStart_def visibleWidth_def)

section \<open>The constructor\<close>

text \<open>
  C3, as the code has it: a logger constructed without \<^verbatim>\<open>_child\<close> from a level that is
  none of debug, info, warn and error (or from no level) has the level info; a logger
  constructed with \<^verbatim>\<open>_child\<close>, as \<^verbatim>\<open>createChild\<close> does, is the winston logger it was
  given, with the level of that logger.
\<close>

theorem constructor_level:
  "(opt_child options = None \<longrightarrow>
      opt_logLevel options \<notin> {Some ''debug'', Some ''info'', Some ''warn'', Some ''error''} \<longrightarrow>
      w_level (logger (constructor options)) = ''info'')
   \<and> (\<forall>c. opt_child options = Some c \<longrightarrow> logger (constructor options) = c)"
  by (auto simp add: constructor_def createLogger_def Let_def split: option.splits)

theorem constructor_level_witness:
  "w_level (logger (constructor \<lparr>opt_name = ''svc'', opt_logLevel = Some ''verbose'',
       opt_format = Some ''console'', opt_debugMode = None, opt_child = None\<rparr>)) = ''info''"
  using constructor_level [of "\<lparr>opt_name = ''svc'', opt_logLevel = Some ''verbose'',
       opt_format = Some ''console'', opt_debugMode = None, opt_child = None\<rparr>"]
  by simp

text \<open>
  The child of a logger of level debug is constructed from no level and has the level
  debug.
\<close>

theorem constructor_level_counterexample:
  "w_level (logger (constructor \<lparr>opt_name = ''svc'', opt_logLevel = None, opt_format = None,
       opt_debugMode = None,
       opt_child = Some (child (createLogger ''debug'' JsonFormat) [(''scope'', JString ''worker'')])\<rparr>))
   = ''debug''"
  by (simp add: constructor_def child_def createLogger_def)

section \<open>getMetadata and traceError\<close>

text \<open>
  C4, as the code has it: \<^verbatim>\<open>getMetadata\<close> returns null exactly when there are no options
  or the metadata is falsy (undefined, null, false, 0, 0n or the empty string); for every
  truthy metadata X, the empty object and the empty array among them, it returns the
  wrapper with the single property metadata, of value X.
\<close>

theorem getMetadata_wraps:
  "(getMetadata options = None
      \<longleftrightarrow> (options = None \<or> (\<exists>opt. options = Some opt \<and> \<not> truthy (lo_metadata opt))))
   \<and> (\<forall>opt. options = Some opt \<longrightarrow> truthy (lo_metadata opt) \<longrightarrow>
          getMetadata options = Some [(''metadata'', lo_metadata opt)])
   \<and> truthy (JObject []) \<and> truthy (JArray [])"
  by (auto simp add: getMetadata_def split: option.splits)

theorem getMetadata_wraps_witness:
  "getMetadata (Some \<lparr>lo_error = None, lo_metadata = JObject []\<rparr>) = Some [(''metadata'', JObject [])]
   \<and> getMetadata (Some \<lparr>lo_error = None, lo_metadata = JArray []\<rparr>) = Some [(''metadata'', JArray [])]"
  using getMetadata_wraps [of "Some \<lparr>lo_error = None, lo_metadata = JObject []\<rparr>"]
        getMetadata_wraps [of "Some \<lparr>lo_error = None, lo_metadata = JArray []\<rparr>"]
  by simp

text \<open>The empty string is not nullish, and \<^verbatim>\<open>getMetadata\<close> returns null for it.\<close>

theorem getMetadata_counterexample:
  "getMetadata (Some \<lparr>lo_error = None, lo_metadata = JString []\<rparr>) = None"
  by (simp add: getMetadata_def)

text \<open>
  C5: whatever the options hold, \<^verbatim>\<open>traceError\<close> returns null when \<^verbatim>\<open>debugMode\<close> is
  false.
\<close>

theorem traceError_production:
  "\<not> debugMode this \<Longrightarrow> fst (traceError this rt options) = None"
  by (simp add: traceError_def)

theorem traceError_production_witness:
  "fst (traceError \<lparr>name = ''svc'', debugMode = False, logger = createLogger ''info'' JsonFormat\<rparr>
          ttyRuntime (Some \<lparr>lo_error = Some \<lparr>stack = Some ''Error: boom''\<rparr>, lo_metadata = JObject [(''code'', JNumber (Num False ''5''))]\<rparr>))
   = None"
  using traceError_production [of "\<lparr>name = ''svc'', debugMode = False, logger = createLogger ''info'' JsonFormat\<rparr>"
          ttyRuntime "Some \<lparr>lo_error = Some \<lparr>stack = Some ''Error: boom''\<rparr>, lo_metadata = JObject [(''code'', JNumber (Num False ''5''))]\<rparr>"]
  by simp

text \<open>
  C2, as the code has it: \<^verbatim>\<open>traceError\<close> leaves the object of the caller as it was exactly
  when \<^verbatim>\<open>debugMode\<close> is false, or no object was passed, or the object already has a truthy
  metadata and an error. With \<^verbatim>\<open>debugMode\<close> true it assigns the defaults to the object
  it was given: the metadata becomes the empty object when it was falsy, the error becomes
  the new \<^verbatim>\<open>Error\<close> when there was none, and nothing else changes.
\<close>

theorem traceError_frame:
  "(snd (traceError this rt options) = options
      \<longleftrightarrow> (\<not> debugMode this \<or> options = None
           \<or> (\<exists>opt. options = Some opt \<and> truthy (lo_metadata opt) \<and> lo_error opt \<noteq> None)))
   \<and> (\<forall>opt. debugMode this \<longrightarrow> options = Some opt \<longrightarrow>
          snd (traceError this rt options)
            = Some \<lparr>lo_error = (case lo_error opt of
                                   None \<Rightarrow> Some \<lparr>stack = Some (capturedStack rt)\<rparr>
                                 | Some e \<Rightarrow> Some e),
                      lo_metadata = (if truthy (lo_metadata opt) then lo_metadata opt
                                     else JObject [])\<rparr>)"
proof (intro conjI allI impI)
  fix opt :: LoggerOption
  assume "debugMode this" and "options = Some opt"
  then show "snd (traceError this rt options)
            = Some \<lparr>lo_error = (case lo_error opt of
                                   None \<Rightarrow> Some \<lparr>stack = Some (capturedStack rt)\<rparr>
                                 | Some e \<Rightarrow> Some e),
                      lo_metadata = (if truthy (lo_metadata opt) then lo_metadata opt
                                     else JObject [])\<rparr>"
    by (cases opt) (simp add: traceError_def Let_def split: option.splits)
next
  show "snd (traceError this rt options) = options
      \<longleftrightarrow> (\<not> debugMode this \<or> options = None
           \<or> (\<exists>opt. options = Some opt \<and> truthy (lo_metadata opt) \<and> lo_error opt \<noteq> None))"
  proof (cases options)
    case None
    then show ?thesis by (simp add: traceError_def Let_def)
  next
    case (Some opt)
    have meta: "opt\<lparr>lo_metadata := JObject [], lo_error := x\<rparr> \<noteq> opt"
      if "\<not> truthy (lo_metadata opt)" for x
    proof
      assume "opt\<lparr>lo_metadata := JObject [], lo_error := x\<rparr> = opt"
      from arg_cong [OF this, of lo_metadata] have "lo_metadata opt = JObject []" by simp
      with that show False by simp
    qed
    have err: "opt\<lparr>lo_error := Some e\<rparr> \<noteq> opt" if "lo_error opt = None" for e
    proof
      assume "opt\<lparr>lo_error := Some e\<rparr> = opt"
      from arg_cong [OF this, of lo_error] have "lo_error opt = Some e" by simp
      with that show False by simp
    qed
    show ?thesis
    proof (cases "debugMode this")
      case False
      then show ?thesis by (simp add: traceError_def)
    next
      case True
      show ?thesis
      proof (cases "truthy (lo_metadata opt)")
        case False
        then show ?thesis using Some True meta
          by (simp add: traceError_def Let_def)
      next
        case truthy: True
        show ?thesis
        proof (cases "lo_error opt")
          case None
          then show ?thesis using Some True truthy err
            by (simp add: traceError_def Let_def)
        next
          case (Some e)
          then have "opt\<lparr>lo_error := Some e\<rparr> = opt" by simp
          then show ?thesis using \<open>options = Some opt\<close> True truthy Some
            by (simp add: traceError_def Let_def)
        qed
      qed
    qed
  qed
qed

theorem traceError_frame_witness:
  "snd (traceError \<lparr>name = ''svc'', debugMode = True, logger = createLogger ''info'' JsonFormat\<rparr>
          ttyRuntime (Some \<lparr>lo_error = Some \<lparr>stack = Some ''Error: boom''\<rparr>,
                             lo_metadata = JObject [(''code'', JNumber (Num False ''5''))]\<rparr>))
     = Some \<lparr>lo_error = Some \<lparr>stack = Some ''Error: boom''\<rparr>,
              lo_metadata = JObject [(''code'', JNumber (Num False ''5''))]\<rparr>
   \<and> snd (traceError \<lparr>name = ''svc'', debugMode = True, logger = createLogger ''info'' JsonFormat\<rparr>
          ttyRuntime (Some \<lparr>lo_error = None, lo_metadata = JString []\<rparr>))
     = Some \<lparr>lo_error = Some \<lparr>stack = Some (capturedStack ttyRuntime)\<rparr>, lo_metadata = JObject []\<rparr>"
  using traceError_frame [of "\<lparr>name = ''svc'', debugMode = True, logger = createLogger ''info'' JsonFormat\<rparr>"
          ttyRuntime "Some \<lparr>lo_error = Some \<lparr>stack = Some ''Error: boom''\<rparr>,
                             lo_metadata = JObject [(''code'', JNumber (Num False ''5''))]\<rparr>"]
        traceError_frame [of "\<lparr>name = ''svc'', debugMode = True, logger = createLogger ''info'' JsonFormat\<rparr>"
          ttyRuntime "Some \<lparr>lo_error = None, lo_metadata = JString []\<rparr>"]
  by simp

text \<open>
  With \<^verbatim>\<open>debugMode\<close> true, an empty options object comes back with a metadata and an
  error.
\<close>

theorem traceError_mutates_counterexample:
  "snd (traceError \<lparr>name = ''svc'', debugMode = True, logger = createLogger ''info'' JsonFormat\<rparr>
          ttyRuntime (Some \<lparr>lo_error = None, lo_metadata = JUndefined\<rparr>))
   \<noteq> Some \<lparr>lo_error = None, lo_metadata = JUndefined\<rparr>"
  by (simp add: traceError_def Let_def)

section \<open>The scope column\<close>

text \<open>
  C6: the scope column is the first 18 characters of the scope when the scope is longer
  than 18, else the scope padded on the left with spaces to 18; it is always 18
  characters wide.
\<close>

theorem scope_column:
  "resolveScope n (r::TransformableInfo) = s \<Longrightarrow>
     scopeColumn n r = (if 18 < length s then take 18 s else replicate (18 - length s) CHR '' '' @ s)
     \<and> length (scopeColumn n r) = 18"
  by (auto simp add: scopeColumn_def trimScope_eq)

theorem scope_column_witness:
  "scopeColumn ''svc'' \<lparr>level = ''info'', message = ''tick'', timestamp = [], scope = Some ''abc'',
       metadata = JUndefined, stackTrace = None\<rparr> = ''               abc''
   \<and> scopeColumn ''svc'' \<lparr>level = ''info'', message = ''tick'', timestamp = [],
       scope = Some ''abcdefghijklmnopqrstuvwxy'',
       metadata = JUndefined, stackTrace = None\<rparr> = ''abcdefghijklmnopqr''"
  using scope_column [of "''svc''" "\<lparr>level = ''info'', message = ''tick'', timestamp = [], scope = Some ''abc'',
       metadata = JUndefined, stackTrace = None\<rparr>" "''abc''"]
    scope_column [of "''svc''" "\<lparr>level = ''info'', message = ''tick'', timestamp = [],
       scope = Some ''abcdefghijklmnopqrstuvwxy'',
       metadata = JUndefined, stackTrace = None\<rparr>" "''abcdefghijklmnopqrstuvwxy''"]
  by (simp add: resolveScope_def eval_nat_numeral)

section \<open>The metadata suffix\<close>

text \<open>
  C7, as the code has it: the suffix is empty for an absent metadata, the empty object and
  the empty array; for a string it is the line break, \<^verbatim>\<open>  > [metadata] \<close> and the string;
  for an object or an array that is not empty, \<^verbatim>\<open>JSON.stringify\<close> either returns a text,
  and the suffix is the same prefix and that text, or raises, and the formatter raises
  that error and renders no suffix.
\<close>

theorem metadata_suffix:
  fixes r :: TransformableInfo
  shows "(metadata r = JUndefined \<or> metadata r = JObject [] \<or> metadata r = JArray []
            \<longrightarrow> metadataSuffix r = Inr [])
       \<and> (\<forall>m. metadata r = JString m
            \<longrightarrow> metadataSuffix r = Inr (CHR 0x0A # ''  > [metadata] '' @ m))
       \<and> ((\<exists>p ps. metadata r = JObject (p # ps)) \<or> (\<exists>x xs. metadata r = JArray (x # xs))
            \<longrightarrow> (\<exists>j. JSON_stringify (metadata r) = Inr (Some j)
                       \<and> metadataSuffix r = Inr (CHR 0x0A # ''  > [metadata] '' @ j))
                \<or> (\<exists>e. JSON_stringify (metadata r) = Inl e \<and> metadataSuffix r = Inl e))"
proof (intro conjI allI impI)
  assume "metadata r = JUndefined \<or> metadata r = JObject [] \<or> metadata r = JArray []"
  then show "metadataSuffix r = Inr []"
    by (auto simp add: metadataSuffix_def stringifyMetadata_def Object_keys_def)
next
  fix m assume "metadata r = JString m"
  then show "metadataSuffix r = Inr (CHR 0x0A # ''  > [metadata] '' @ m)"
    by (simp add: metadataSuffix_def stringifyMetadata_def)
next
  assume shape: "(\<exists>p ps. metadata r = JObject (p # ps)) \<or> (\<exists>x xs. metadata r = JArray (x # xs))"
  then have str: "stringifyMetadata r = concatStringified '' '' (JSON_stringify (metadata r))"
    by (auto simp add: stringifyMetadata_def Object_keys_def)
  from shape have some: "JSON_stringify (metadata r) \<noteq> Inr None"
    by (auto simp add: JSON_stringify_def split: sum.splits)
  show "(\<exists>j. JSON_stringify (metadata r) = Inr (Some j)
              \<and> metadataSuffix r = Inr (CHR 0x0A # ''  > [metadata] '' @ j))
        \<or> (\<exists>e. JSON_stringify (metadata r) = Inl e \<and> metadataSuffix r = Inl e)"
  proof (cases "JSON_stringify (metadata r)")
    case (Inl e)
    then show ?thesis using str by (simp add: metadataSuffix_def concatStringified_def)
  next
    case (Inr y)
    with some obtain j where "y = Some j" by (cases y) auto
    then show ?thesis using str Inr by (simp add: metadataSuffix_def concatStringified_def)
  qed
qed

theorem metadata_suffix_witness:
  "metadataSuffix \<lparr>level = ''info'', message = ''tick'', timestamp = [], scope = None,
       metadata = JObject [(''a'', JNumber (Num False ''1''))], stackTrace = None\<rparr>
     = Inr (CHR 0x0A # ''  > [metadata] {'' @ CHR 0x22 # ''a'' @ CHR 0x22 # '':1}'')
   \<and> metadataSuffix \<lparr>level = ''info'', message = ''tick'', timestamp = [], scope = None,
       metadata = JString ''hello'', stackTrace = None\<rparr>
     = Inr (CHR 0x0A # ''  > [metadata] hello'')
   \<and> metadataSuffix \<lparr>level = ''info'', message = ''tick'', timestamp = [], scope = None,
       metadata = JArray [], stackTrace = None\<rparr> = Inr []"
  using metadata_suffix [of "\<lparr>level = ''info'', message = ''tick'', timestamp = [], scope = None,
       metadata = JObject [(''a'', JNumber (Num False ''1''))], stackTrace = None\<rparr>"]
    metadata_suffix [of "\<lparr>level = ''info'', message = ''tick'', timestamp = [], scope = None,
       metadata = JString ''hello'', stackTrace = None\<rparr>"]
    metadata_suffix [of "\<lparr>level = ''info'', message = ''tick'', timestamp = [], scope = None,
       metadata = JArray [], stackTrace = None\<rparr>"]
  by (simp add: stringify_a1)

text \<open>
  An object that holds a BigInt is not empty and has no JSON text: there is no suffix,
  the formatter raises.
\<close>

theorem metadata_suffix_counterexample:
  "metadataSuffix \<lparr>level = ''info'', message = ''tick'', timestamp = [], scope = None,
       metadata = JObject [(''n'', JBigInt 1)], stackTrace = None\<rparr> = Inl TypeError"
  by (simp add: metadataSuffix_def stringifyMetadata_def Object_keys_def JSON_stringify_def
      concatStringified_def)

section \<open>The four logging calls\<close>













section \<open>Child loggers\<close>

lemma scope_of_child:
  "scope (winston_info (child w [(''scope'', JString s)]) lvl msg None) = Some s"
  "scope (winston_info (child w [(''scope'', JString s)]) lvl msg (Some [(''metadata'', x)])) = Some s"
  "scope (winston_info (child w [(''scope'', JString s)]) lvl msg
            (Some [(''stackTrace'', t), (''metadata'', x)])) = Some s"
  by (simp_all add: winston_info_def Let_def child_def getProp_setProp asString_def)

lemma scope_of_getMetadata:
  "scope (winston_info (child w [(''scope'', JString s)]) lvl msg (getMetadata options)) = Some s"
  by (cases options) (simp_all add: getMetadata_def scope_of_child)

lemma scope_of_traceError:
  "scope (winston_info (child w [(''scope'', JString s)]) lvl msg (fst (traceError this rt options)))
     = Some s"
  by (simp add: traceError_def Let_def scope_of_child)

lemma logger_createChild:
  "logger (createChild this s) = child (logger this) [(''scope'', JString s)]"
  by (simp add: createChild_def constructor_def)

lemma format_child: "w_format (child w meta) = w_format w"
  by (simp add: child_def)

lemma level_winston_info: "level (winston_info w lvl msg meta) = lvl"
  "message (winston_info w lvl msg meta) = msg"
  by (simp_all add: winston_info_def Let_def)

lemma winston_log_line:
  assumes "w_format w = ConsoleFormat n"
    and "scope (winston_info w lvl msg meta) = Some s" and "c = (if s = [] then n else s)"
    and "winston_log w rt lvl msg meta = Inr out"
  shows "\<exists>suffix. out = Line (''['' @ clock rt @ ''] '' @ padStart (colorize rt lvl lvl) 15 '' ''
           @ '': '' @ (if 18 < length c then take 18 c else replicate (18 - length c) CHR '' '' @ c)
           @ '' | '' @ colorize rt lvl msg @ suffix)"
proof -
  have "resolveScope n (winston_info w lvl msg meta) = c"
    using assms(2,3) by (simp add: resolveScope_def)
  then show ?thesis using assms(1,4)
    by (auto simp add: winston_log_def handleConsoleFormat_def printf_callback_def
        levelColumn_def scopeColumn_def resolveScope_def trimScope_eq level_winston_info
        split: sum.splits)
qed

lemma built_name:
  "built l \<Longrightarrow> w_format (logger l) = ConsoleFormat n \<Longrightarrow> name l = n"
proof (induction rule: built.induct)
  case (built_root options)
  then show ?case
    by (simp add: constructor_def createLogger_def split: if_splits)
next
  case (built_child this scp)
  then show ?case
    by (simp add: createChild_def constructor_def child_def)
qed

text \<open>
  C9, as the code has it: a record logged through the child that \<^verbatim>\<open>createChild(s)\<close> returns
  has its scope column made from s, cut or padded to 18 characters, for every scope string
  s that is not empty, whatever the name of the parent. For the empty scope string the
  column is made, by the same rule, from the name n that the console format reads as
  \<^verbatim>\<open>this.name\<close>; that is the configured name of every logger built by the constructor and
  \<^verbatim>\<open>createChild\<close>.
\<close>

theorem child_scope_column:
  assumes "w_format (logger this) = ConsoleFormat n" and "c = (if s = [] then n else s)"
  shows "(\<forall>out. debug (createChild this s) rt msg options = Inr out \<longrightarrow>
           (\<exists>suffix. out = Line (''['' @ clock rt @ ''] '' @ padStart (colorize rt ''debug'' ''debug'') 15 '' ''
              @ '': '' @ (if 18 < length c then take 18 c else replicate (18 - length c) CHR '' '' @ c)
              @ '' | '' @ colorize rt ''debug'' msg @ suffix)))
       \<and> (\<forall>out. info (createChild this s) rt msg options = Inr out \<longrightarrow>
           (\<exists>suffix. out = Line (''['' @ clock rt @ ''] '' @ padStart (colorize rt ''info'' ''info'') 15 '' ''
              @ '': '' @ (if 18 < length c then take 18 c else replicate (18 - length c) CHR '' '' @ c)
              @ '' | '' @ colorize rt ''info'' msg @ suffix)))
       \<and> (\<forall>out. warn (createChild this s) rt msg options = Inr out \<longrightarrow>
           (\<exists>suffix. out = Line (''['' @ clock rt @ ''] '' @ padStart (colorize rt ''warn'' ''warn'') 15 '' ''
              @ '': '' @ (if 18 < length c then take 18 c else replicate (18 - length c) CHR '' '' @ c)
              @ '' | '' @ colorize rt ''warn'' msg @ suffix)))
       \<and> (\<forall>out. fst (error (createChild this s) rt msg options) = Inr out \<longrightarrow>
           (\<exists>suffix. out = Line (''['' @ clock rt @ ''] '' @ padStart (colorize rt ''error'' ''error'') 15 '' ''
              @ '': '' @ (if 18 < length c then take 18 c else replicate (18 - length c) CHR '' '' @ c)
              @ '' | '' @ colorize rt ''error'' msg @ suffix)))
       \<and> (built this \<longrightarrow> name this = n)"
proof -
  have fmt: "w_format (logger (createChild this s)) = ConsoleFormat n"
    using assms(1) by (simp add: logger_createChild format_child)
  show ?thesis
  proof (intro conjI allI impI)
    fix out assume "debug (createChild this s) rt msg options = Inr out"
    then show "\<exists>suffix. out = Line (''['' @ clock rt @ ''] '' @ padStart (colorize rt ''debug'' ''debug'') 15 '' ''
              @ '': '' @ (if 18 < length c then take 18 c else replicate (18 - length c) CHR '' '' @ c)
              @ '' | '' @ colorize rt ''debug'' msg @ suffix)"
      unfolding debug_def
      by (intro winston_log_line [OF fmt _ assms(2)]) (simp_all add: logger_createChild scope_of_getMetadata)
  next
    fix out assume "info (createChild this s) rt msg options = Inr out"
    then show "\<exists>suffix. out = Line (''['' @ clock rt @ ''] '' @ padStart (colorize rt ''info'' ''info'') 15 '' ''
              @ '': '' @ (if 18 < length c then take 18 c else replicate (18 - length c) CHR '' '' @ c)
              @ '' | '' @ colorize rt ''info'' msg @ suffix)"
      unfolding info_def
      by (intro winston_log_line [OF fmt _ assms(2)]) (simp_all add: logger_createChild scope_of_getMetadata)
  next
    fix out assume "warn (createChild this s) rt msg options = Inr out"
    then show "\<exists>suffix. out = Line (''['' @ clock rt @ ''] '' @ padStart (colorize rt ''warn'' ''warn'') 15 '' ''
              @ '': '' @ (if 18 < length c then take 18 c else replicate (18 - length c) CHR '' '' @ c)
              @ '' | '' @ colorize rt ''warn'' msg @ suffix)"
      unfolding warn_def
      by (intro winston_log_line [OF fmt _ assms(2)]) (simp_all add: logger_createChild scope_of_getMetadata)
  next
    fix out assume "fst (error (createChild this s) rt msg options) = Inr out"
    then show "\<exists>suffix. out = Line (''['' @ clock rt @ ''] '' @ padStart (colorize rt ''error'' ''error'') 15 '' ''
              @ '': '' @ (if 18 < length c then take 18 c else replicate (18 - length c) CHR '' '' @ c)
              @ '' | '' @ colorize rt ''error'' msg @ suffix)"
      unfolding error_def fst_conv
      by (intro winston_log_line [OF fmt _ assms(2)]) (simp_all add: logger_createChild scope_of_traceError)
  next
    assume "built this"
    then show "name this = n" using assms(1) by (rule built_name)
  qed
qed

theorem child_scope_column_witness:
  "info (createChild (constructor \<lparr>opt_name = ''svc'', opt_logLevel = None,
            opt_format = Some ''console'', opt_debugMode = None, opt_child = None\<rparr>) ''worker'')
        ttyRuntime ''tick'' None
   = Inr (Line (''[2021-03-04T05:06:07.089Z] '' @ '' '' @ CHR 0x1B # ''[32minfo'' @ CHR 0x1B # ''[39m''
          @ '': '' @ ''            worker'' @ '' | '' @ CHR 0x1B # ''[32mtick'' @ CHR 0x1B # ''[39m''))"
  using child_scope_column [of "constructor \<lparr>opt_name = ''svc'', opt_logLevel = None,
            opt_format = Some ''console'', opt_debugMode = None, opt_child = None\<rparr>" "''svc''"
            "''worker''" "''worker''" ttyRuntime "''tick''" None]
  by (simp add: info_def createChild_def constructor_def createLogger_def child_def
      getMetadata_def winston_log_def winston_info_def handleConsoleFormat_def
      printf_callback_def metadataSuffix_def stringifyMetadata_def stackTraceSuffix_def
      levelColumn_def scopeColumn_def resolveScope_def trimScope_def SCOPE_MAX_LEN_def
      padStart_def getProp_def asString_def ttyRuntime_def ansi_info ansi_tick
      eval_nat_numeral)

text \<open>
  The child of the empty scope on the logger named svc: the scope column holds svc.
\<close>

theorem child_scope_counterexample:
  "info (createChild (constructor \<lparr>opt_name = ''svc'', opt_logLevel = None,
            opt_format = Some ''console'', opt_debugMode = None, opt_child = None\<rparr>) [])
        ttyRuntime ''tick'' None
   = Inr (Line (''[2021-03-04T05:06:07.089Z] '' @ '' '' @ CHR 0x1B # ''[32minfo'' @ CHR 0x1B # ''[39m''
          @ '': '' @ ''               svc'' @ '' | '' @ CHR 0x1B # ''[32mtick'' @ CHR 0x1B # ''[39m''))"
  by (simp add: info_def createChild_def constructor_def createLogger_def child_def
      getMetadata_def winston_log_def winston_info_def handleConsoleFormat_def
      printf_callback_def metadataSuffix_def stringifyMetadata_def stackTraceSuffix_def
      levelColumn_def scopeColumn_def resolveScope_def trimScope_def SCOPE_MAX_LEN_def
      padStart_def getProp_def asString_def ttyRuntime_def ansi_info ansi_tick
      eval_nat_numeral)

text \<open>
  C10: the child that \<^verbatim>\<open>createChild\<close> returns has \<^verbatim>\<open>debugMode\<close> false, whatever the
  \<^verbatim>\<open>debugMode\<close> of its parent; its \<^verbatim>\<open>traceError\<close> returns null and leaves the options
  alone, so its \<^verbatim>\<open>error\<close> call hands no stack trace and no metadata to winston.
\<close>

theorem child_debugMode:
  "debugMode (createChild this s) = False
   \<and> fst (traceError (createChild this s) rt options) = None
   \<and> snd (traceError (createChild this s) rt options) = options
   \<and> error (createChild this s) rt msg options
       = (winston_log (logger (createChild this s)) rt ''error'' msg None, options)"
  by (simp add: createChild_def constructor_def traceError_def error_def)

theorem child_debugMode_witness:
  "debugMode (constructor \<lparr>opt_name = ''svc'', opt_logLevel = Some ''debug'',
       opt_format = Some ''console'', opt_debugMode = Some True, opt_child = None\<rparr>)
   \<and> fst (traceError (createChild (constructor \<lparr>opt_name = ''svc'', opt_logLevel = Some ''debug'',
       opt_format = Some ''console'', opt_debugMode = Some True, opt_child = None\<rparr>) ''worker'')
       ttyRuntime (Some \<lparr>lo_error = Some \<lparr>stack = Some ''Error: boom''\<rparr>, lo_metadata = JUndefined\<rparr>)) = None"
  using child_debugMode [of "constructor \<lparr>opt_name = ''svc'', opt_logLevel = Some ''debug'',
       opt_format = Some ''console'', opt_debugMode = Some True, opt_child = None\<rparr>" "''worker''"
       ttyRuntime "Some \<lparr>lo_error = Some \<lparr>stack = Some ''Error: boom''\<rparr>, lo_metadata = JUndefined\<rparr>"]
  by (simp add: constructor_def)

end
